theory Spec2Isabelle
  imports Main
begin

section \<open>Python values used by app.py\<close>

text \<open>
  A Python \<open>str\<close> is a sequence of Unicode code points, and \<open>len\<close> counts code
  points. The labels of the application are Armenian, so a string is modelled as the list
  of its code points; \<open>ascii\<close> embeds an ASCII literal.
\<close>

type_synonym pystr = "nat list"

definition ascii :: "string \<Rightarrow> pystr" where
  "ascii s = map of_char s"

text \<open>
  \<open>str.isspace\<close> on one code point, as CPython decides it: the characters of
  bidirectional type WS, B or S and of category Zs.
\<close>

definition isspace :: "nat \<Rightarrow> bool" where
  "isspace c \<longleftrightarrow>
     (0x09 \<le> c \<and> c \<le> 0x0D) \<or> (0x1C \<le> c \<and> c \<le> 0x20) \<or> c = 0x85 \<or> c = 0xA0 \<or>
     c = 0x1680 \<or> (0x2000 \<le> c \<and> c \<le> 0x200A) \<or> c = 0x2028 \<or> c = 0x2029 \<or>
     c = 0x202F \<or> c = 0x205F \<or> c = 0x3000"

text \<open>\<open>v.strip()\<close>: leading and trailing whitespace removed.\<close>

definition strip :: "pystr \<Rightarrow> pystr" where
  "strip v = rev (dropWhile isspace (rev (dropWhile isspace v)))"

section \<open>The data model\<close>

text \<open>\<open>class ShawarmaType(Enum)\<close>: four members, each with an Armenian string value.\<close>

datatype ShawarmaType = HAVOV | TAVAROV | BANJAR | HATUK

fun ShawarmaType_value :: "ShawarmaType \<Rightarrow> pystr" where
  "ShawarmaType_value HAVOV = [0x570, 0x561, 0x57E, 0x578, 0x57E]"
| "ShawarmaType_value TAVAROV = [0x57F, 0x561, 0x57E, 0x561, 0x580, 0x578, 0x57E]"
| "ShawarmaType_value BANJAR =
     [0x562, 0x561, 0x576, 0x57B, 0x561, 0x580, 0x565, 0x572, 0x565, 0x576, 0x578, 0x57E]"
| "ShawarmaType_value HATUK = [0x570, 0x561, 0x57F, 0x578, 0x582, 0x56F]"

definition ShawarmaType_members :: "ShawarmaType list" where
  "ShawarmaType_members = [HAVOV, TAVAROV, BANJAR, HATUK]"

text \<open>
  \<open>ShawarmaType(v)\<close>, the lookup of a member by its value, which is how a field typed
  \<open>ShawarmaType\<close> is validated from a request body: \<open>None\<close> when no member has
  the value.
\<close>

definition ShawarmaType_of_value :: "pystr \<Rightarrow> ShawarmaType option" where
  "ShawarmaType_of_value v = find (\<lambda>m. ShawarmaType_value m = v) ShawarmaType_members"

text \<open>
  The values that occur as dictionary keys and as elements of an order's \<open>items\<close>: a
  \<open>str\<close> or a member of \<open>ShawarmaType\<close>. \<open>ShawarmaType\<close> derives from
  \<open>Enum\<close> alone (not from \<open>str\<close>), so its members compare by identity and a
  \<open>str\<close> is never equal to a member, whatever its content: Python's \<open>==\<close> on these
  values is the equality of this datatype.
\<close>

datatype pyval = Str pystr | Member ShawarmaType

record ShawarmaItem =
  name :: ShawarmaType
  price :: int
  available :: bool
  prep_time :: int

text \<open>\<open>datetime\<close> values are opaque to the application; a timestamp stands for one.\<close>

type_synonym datetime = int

record OrderCreate =
  customer_name :: pystr
  items :: "ShawarmaType list"
  special_requests :: "pystr option"

text \<open>
  \<open>class Order\<close>. The field \<open>id\<close> is written \<open>id'\<close>. \<open>items\<close> is declared
  \<open>List[ShawarmaType]\<close>, but the model does not validate assignments, and
  \<open>update_order\<close> assigns a list of \<open>str\<close>: the field holds \<open>pyval\<close>s.
\<close>

record Order =
  id' :: int
  customer_name :: pystr
  items :: "pyval list"
  status :: pystr
  created_at :: datetime

text \<open>
  The f-string messages, by their shape: \<open>OrderCreated n\<close> is the text of line 133
  with order number \<open>n\<close>, \<open>OrderCancelled n\<close> the text of line 175.
\<close>

datatype message = OrderCreated int | OrderCancelled int

record OrderResponse =
  status :: pystr
  order :: Order
  message :: message

text \<open>The two status labels stamped by \<open>create_order\<close> (lines 119 and 131).\<close>

definition label_in_progress :: pystr where
  "label_in_progress = [0x538, 0x576, 0x569, 0x561, 0x581, 0x584, 0x578, 0x582, 0x574, 0x20, 0x561]"

definition label_response_ready :: pystr where
  "label_response_ready = [0x54A, 0x561, 0x57F, 0x580, 0x561, 0x57D, 0x57F, 0x20, 0x561]"

text \<open>The label \<open>cancel_order\<close> compares the status with (line 171).\<close>

definition label_ready :: pystr where
  "label_ready = [0x57A, 0x561, 0x57F, 0x580, 0x561, 0x57D, 0x57F]"

section \<open>Errors and responses\<close>

text \<open>
  The \<open>detail\<close> of an \<open>HTTPException\<close>, by its shape:
  \<^item> \<open>ItemNotFound item_name keys\<close>: line 89, the requested name followed by
    \<open>list(menu_items.keys())\<close>;
  \<^item> \<open>OrderNotFound order_id\<close>: lines 141, 149 and 168;
  \<^item> \<open>ReadyOrderNoUpdate\<close>: the fixed text of line 153;
  \<^item> \<open>ReadyOrderNoCancel\<close>: the fixed text of line 172.
\<close>

datatype detail =
    ItemNotFound pystr "pyval list"
  | OrderNotFound int
  | ReadyOrderNoUpdate
  | ReadyOrderNoCancel

text \<open>
  \<open>ValueError\<close> is what \<open>validate_name\<close> raises; \<open>RequestValidationError fields\<close>
  is the rejection of a request body whose listed fields failed validation, answered with
  status 422; \<open>HTTPException code detail\<close> is raised by the handlers and answered
  with status \<open>code\<close>; \<open>UnicodeEncodeError\<close> is what \<open>print\<close> raises on a text
  the console cannot encode. Any exception other than the two answered above that reaches
  the framework is answered with status 500; \<open>validate_name\<close> runs inside the
  validation of the body, where its \<open>ValueError\<close> becomes a
  \<open>RequestValidationError\<close>.
\<close>

datatype error =
    ValueError
  | UnicodeEncodeError
  | RequestValidationError "string list"
  | HTTPException int detail

fun status_code :: "error \<Rightarrow> int" where
  "status_code ValueError = 500"
| "status_code UnicodeEncodeError = 500"
| "status_code (RequestValidationError _) = 422"
| "status_code (HTTPException code _) = code"

subsection \<open>Writing to the console\<close>

text \<open>
  \<open>print(text)\<close> encodes the text for \<open>sys.stdout\<close> and raises
  \<open>UnicodeEncodeError\<close> when a code point has no encoding. The console is taken to be
  a UTF-8 stream with the error handler \<open>strict\<close>, which encodes every code point of a
  \<open>str\<close> but the surrogates \<open>0xD800\<close> to \<open>0xDFFF\<close>. What is written is not
  kept: of \<open>print\<close> the model keeps whether it raises.
\<close>

definition stdout_encodable :: "nat \<Rightarrow> bool" where
  "stdout_encodable c \<longleftrightarrow> c < 0xD800 \<or> (0xDFFF < c \<and> c \<le> 0x10FFFF)"

definition print :: "pystr \<Rightarrow> error + unit" where
  "print text = (if list_all stdout_encodable text then Inr () else Inl UnicodeEncodeError)"

text \<open>\<open>str(n)\<close> for an \<open>int\<close>, as an f-string formats it: decimal digits, with a sign.\<close>

fun digits :: "nat \<Rightarrow> pystr" where
  "digits n = (if n < 10 then [0x30 + n] else digits (n div 10) @ [0x30 + n mod 10])"

declare digits.simps [simp del]

definition str_int :: "int \<Rightarrow> pystr" where
  "str_int i = (if i < 0 then 0x2D # digits (nat (- i)) else digits (nat i))"

text \<open>
  The f-string of line 127, with the order number and the name of the customer in their
  places.
\<close>

definition preparing_text :: "int \<Rightarrow> pystr \<Rightarrow> pystr" where
  "preparing_text n customer =
     [0x1F959, 0x20, 0x54A, 0x561, 0x57F, 0x580, 0x561, 0x57D, 0x57F, 0x578, 0x582, 0x574, 0x20,
      0x565, 0x574, 0x20, 0x57A, 0x561, 0x57F, 0x57E, 0x565, 0x580, 0x20, 0x23]
     @ str_int n @ [0x20, 0x28] @ customer @ [0x29]"

text \<open>The bodies of the successful answers, one constructor for each shape of \<open>dict\<close>.\<close>

datatype response =
    Ping_response pystr pystr pystr
  | Menu_response pystr "(pyval \<times> int \<times> bool \<times> int) list"
  | MenuItem_response pystr ShawarmaItem
  | Create_response OrderResponse
  | Order_response pystr Order
  | Cancel_response pystr message

section \<open>The menu\<close>

text \<open>
  \<open>menu_items\<close>: a dictionary in insertion order, its keys the members of
  \<open>ShawarmaType\<close>.
\<close>

definition menu_items :: "(pyval \<times> ShawarmaItem) list" where
  "menu_items =
     [(Member HAVOV, \<lparr>name = HAVOV, price = 1500, available = True, prep_time = 3\<rparr>),
      (Member TAVAROV, \<lparr>name = TAVAROV, price = 1800, available = True, prep_time = 4\<rparr>),
      (Member BANJAR, \<lparr>name = BANJAR, price = 1200, available = True, prep_time = 2\<rparr>),
      (Member HATUK, \<lparr>name = HATUK, price = 2200, available = True, prep_time = 6\<rparr>)]"

definition ping_message :: pystr where
  "ping_message =
     [0x532, 0x561, 0x580, 0x56B, 0x20, 0x563, 0x561, 0x56C, 0x578, 0x582, 0x57D, 0x57F, 0x20,
      0x535, 0x580, 0x587, 0x561, 0x576, 0x575, 0x561, 0x576, 0x20, 0x547, 0x561, 0x578, 0x582,
      0x580, 0x574, 0x561, 0x20, 0x41, 0x50, 0x49, 0x20, 0x1F959]"

definition ping :: "error + response" where
  "ping = Inr (Ping_response ping_message (ascii ''/docs'') (ascii ''1.0.0''))"

definition get_menu :: "error + response" where
  "get_menu =
     Inr (Menu_response (ascii ''success'')
       (map (\<lambda>(name, item). (name, price item, available item, prep_time item)) menu_items))"

text \<open>
  \<open>get_menu_item(item_name: str)\<close>: the path parameter is a \<open>str\<close>, and the
  membership test and the subscript look it up among the keys of \<open>menu_items\<close>.
\<close>

definition get_menu_item :: "pystr \<Rightarrow> error + response" where
  "get_menu_item item_name =
     (case map_of menu_items (Str item_name) of
        None \<Rightarrow> Inl (HTTPException 404 (ItemNotFound item_name (map fst menu_items)))
      | Some item \<Rightarrow> Inr (MenuItem_response (ascii ''success'') item))"

section \<open>The order store\<close>

record app_state =
  orders_storage :: "int \<rightharpoonup> Order"
  next_order_id :: int

definition init_state :: app_state where
  "init_state = \<lparr>orders_storage = Map.empty, next_order_id = 1\<rparr>"

subsection \<open>Validation of the request body of \<open>POST /orders\<close>\<close>

definition validate_name :: "pystr \<Rightarrow> error + pystr" where
  "validate_name v = (if length (strip v) < 2 then Inl ValueError else Inr (strip v))"

text \<open>
  \<open>OrderCreate(customer_name=..., items=..., special_requests=...)\<close> from the strings of
  the body (\<open>raw_name\<close>, \<open>raw_items\<close>, \<open>raw_requests\<close>): \<open>customer_name\<close> goes through \<open>validate_name\<close>, each element of
  \<open>items\<close> must be the value of a member of \<open>ShawarmaType\<close>, \<open>special_requests\<close>
  is a string or \<open>None\<close> (a body without the field gives \<open>Some []\<close>, the default).
  Every failing field is reported.
\<close>

definition OrderCreate_validate ::
  "pystr \<Rightarrow> pystr list \<Rightarrow> pystr option \<Rightarrow> error + OrderCreate" where
  "OrderCreate_validate raw_name raw_items raw_requests =
     (case (validate_name raw_name, those (map ShawarmaType_of_value raw_items)) of
        (Inr v, Some members) \<Rightarrow>
          Inr \<lparr>OrderCreate.customer_name = v, OrderCreate.items = members,
               special_requests = raw_requests\<rparr>
      | (Inl _, Some _) \<Rightarrow> Inl (RequestValidationError [''customer_name''])
      | (Inr _, None) \<Rightarrow> Inl (RequestValidationError [''items''])
      | (Inl _, None) \<Rightarrow> Inl (RequestValidationError [''customer_name'', ''items'']))"

subsection \<open>The handlers\<close>

text \<open>
  Each handler takes the state (\<open>orders_storage\<close> and \<open>next_order_id\<close>) and returns
  its answer with the state it leaves. \<open>create_order\<close> reads the clock once: the
  reading is the argument \<open>now\<close>. Its \<open>print\<close> comes after the order is stored and
  the counter incremented: when it raises, the handler ends there with the exception, and
  the state keeps both updates. \<open>time.sleep(1)\<close> touches neither the state nor the
  answer and is left out. Requests are handled one after the other.
\<close>

definition create_order ::
  "OrderCreate \<Rightarrow> datetime \<Rightarrow> app_state \<Rightarrow> (error + response) \<times> app_state" where
  "create_order order_data now s =
     (let new_order =
            \<lparr>id' = next_order_id s,
             Order.customer_name = OrderCreate.customer_name order_data,
             Order.items = map Member (OrderCreate.items order_data),
             Order.status = label_in_progress,
             created_at = now\<rparr>;
          s1 = s\<lparr>orders_storage := (orders_storage s)(next_order_id s \<mapsto> new_order)\<rparr>;
          s2 = s1\<lparr>next_order_id := next_order_id s1 + 1\<rparr>
      in (case print (preparing_text (next_order_id s2 - 1)
                       (OrderCreate.customer_name order_data)) of
            Inl e \<Rightarrow> (Inl e, s2)
          | Inr _ \<Rightarrow>
              (Inr (Create_response
                     \<lparr>OrderResponse.status = label_response_ready,
                      order = new_order,
                      message = OrderCreated (next_order_id s2 - 1)\<rparr>),
               s2)))"

text \<open>\<open>POST /orders\<close>: the body is validated, then \<open>create_order\<close> runs.\<close>

definition post_orders ::
  "pystr \<Rightarrow> pystr list \<Rightarrow> pystr option \<Rightarrow> datetime \<Rightarrow> app_state
     \<Rightarrow> (error + response) \<times> app_state" where
  "post_orders raw_name raw_items raw_requests now s =
     (case OrderCreate_validate raw_name raw_items raw_requests of
        Inl e \<Rightarrow> (Inl e, s)
      | Inr order_data \<Rightarrow> create_order order_data now s)"

definition get_order :: "int \<Rightarrow> app_state \<Rightarrow> (error + response) \<times> app_state" where
  "get_order order_id s =
     (case orders_storage s order_id of
        None \<Rightarrow> (Inl (HTTPException 404 (OrderNotFound order_id)), s)
      | Some stored \<Rightarrow> (Inr (Order_response (ascii ''success'') stored), s))"

definition update_order ::
  "int \<Rightarrow> pystr list \<Rightarrow> app_state \<Rightarrow> (error + response) \<times> app_state" where
  "update_order order_id new_items s =
     (case orders_storage s order_id of
        None \<Rightarrow> (Inl (HTTPException 404 (OrderNotFound order_id)), s)
      | Some stored \<Rightarrow>
          if Order.status stored \<noteq> label_in_progress
          then (Inl (HTTPException 422 ReadyOrderNoUpdate), s)
          else
            (let updated = stored\<lparr>Order.items := map Str new_items\<rparr>
             in (Inr (Order_response (ascii ''updated'') updated),
                 s\<lparr>orders_storage := (orders_storage s)(order_id \<mapsto> updated)\<rparr>)))"

definition cancel_order :: "int \<Rightarrow> app_state \<Rightarrow> (error + response) \<times> app_state" where
  "cancel_order order_id s =
     (case orders_storage s order_id of
        None \<Rightarrow> (Inl (HTTPException 404 (OrderNotFound order_id)), s)
      | Some stored \<Rightarrow>
          if Order.status stored = label_ready
          then (Inl (HTTPException 422 ReadyOrderNoCancel), s)
          else (Inr (Cancel_response (ascii ''cancelled'') (OrderCancelled order_id)),
                s\<lparr>orders_storage := (orders_storage s)(order_id := None)\<rparr>))"

subsection \<open>The public operations as a state machine\<close>

datatype request =
    Ping
  | GetMenu
  | GetMenuItem pystr
  | PostOrders pystr "pystr list" "pystr option" datetime
  | GetOrder int
  | PutOrder int "pystr list"
  | DeleteOrder int

fun step :: "request \<Rightarrow> app_state \<Rightarrow> (error + response) \<times> app_state" where
  "step Ping s = (ping, s)"
| "step GetMenu s = (get_menu, s)"
| "step (GetMenuItem item_name) s = (get_menu_item item_name, s)"
| "step (PostOrders raw_name raw_items raw_requests now) s =
     post_orders raw_name raw_items raw_requests now s"
| "step (GetOrder order_id) s = get_order order_id s"
| "step (PutOrder order_id new_items) s = update_order order_id new_items s"
| "step (DeleteOrder order_id) s = cancel_order order_id s"

text \<open>A session: the answers to a list of requests, and the state after the last.\<close>

fun run :: "request list \<Rightarrow> app_state \<Rightarrow> (error + response) list \<times> app_state" where
  "run [] s = ([], s)"
| "run (r # rs) s =
     (case step r s of (out, s') \<Rightarrow>
        (case run rs s' of (outs, s'') \<Rightarrow> (out # outs, s'')))"

text \<open>The identifiers of the orders created in a session, in the order of creation.\<close>

fun created_ids :: "(error + response) list \<Rightarrow> int list" where
  "created_ids [] = []"
| "created_ids (Inr (Create_response r) # outs) = id' (order r) # created_ids outs"
| "created_ids (_ # outs) = created_ids outs"

section \<open>Facts about validation\<close>

lemma ShawarmaType_of_value_value: "ShawarmaType_of_value (ShawarmaType_value m) = Some m"
  by (cases m) (simp_all add: ShawarmaType_of_value_def ShawarmaType_members_def)

lemma those_members:
  "those (map ShawarmaType_of_value (map ShawarmaType_value members)) = Some members"
  by (induction members) (simp_all add: ShawarmaType_of_value_value)

lemma those_None_iff: "those xs = None \<longleftrightarrow> None \<in> set xs"
  by (induction xs) (auto split: option.splits)

lemma strip_all_space: "\<forall>c\<in>set v. isspace c \<Longrightarrow> strip v = []"
  by (auto simp: strip_def dest: set_dropWhileD)

lemma OrderCreate_validate_ok:
  "2 \<le> length (strip raw_name) \<Longrightarrow>
   OrderCreate_validate raw_name (map ShawarmaType_value members) raw_requests =
     Inr \<lparr>OrderCreate.customer_name = strip raw_name, OrderCreate.items = members,
          special_requests = raw_requests\<rparr>"
  using those_members [of members]
  by (simp add: OrderCreate_validate_def validate_name_def)

lemma OrderCreate_validate_short_name:
  "length (strip raw_name) < 2 \<Longrightarrow>
   OrderCreate_validate raw_name raw_items raw_requests =
     Inl (RequestValidationError
       (if those (map ShawarmaType_of_value raw_items) = None
        then [''customer_name'', ''items''] else [''customer_name'']))"
  by (simp add: OrderCreate_validate_def validate_name_def split: option.splits)

section \<open>Facts about the console\<close>

lemma digits_encodable: "list_all stdout_encodable (digits n)"
proof (induction n rule: digits.induct)
  case (1 n)
  show ?case
  proof (cases "n < 10")
    case True
    then show ?thesis
      by (subst digits.simps) (simp add: stdout_encodable_def)
  next
    case False
    then have "list_all stdout_encodable (digits (n div 10))"
      by (rule "1.IH")
    moreover have "stdout_encodable (0x30 + n mod 10)"
      by (simp add: stdout_encodable_def) arith
    ultimately show ?thesis
      using False by (subst digits.simps) simp
  qed
qed

lemma str_int_encodable: "list_all stdout_encodable (str_int i)"
  by (simp add: str_int_def digits_encodable stdout_encodable_def)

text \<open>The \<open>print\<close> of line 127 raises exactly when the name cannot be encoded.\<close>

lemma print_preparing_text:
  "print (preparing_text n customer) =
     (if list_all stdout_encodable customer then Inr () else Inl UnicodeEncodeError)"
  by (simp add: print_def preparing_text_def str_int_encodable stdout_encodable_def)

lemma create_order_unfold:
  "create_order order_data now s =
     (if list_all stdout_encodable (OrderCreate.customer_name order_data)
      then Inr (Create_response
                 \<lparr>OrderResponse.status = label_response_ready,
                  order =
                    \<lparr>id' = next_order_id s,
                     Order.customer_name = OrderCreate.customer_name order_data,
                     Order.items = map Member (OrderCreate.items order_data),
                     Order.status = label_in_progress,
                     created_at = now\<rparr>,
                  message = OrderCreated (next_order_id s)\<rparr>)
      else Inl UnicodeEncodeError,
      s\<lparr>orders_storage := (orders_storage s)(next_order_id s \<mapsto>
           \<lparr>id' = next_order_id s,
            Order.customer_name = OrderCreate.customer_name order_data,
            Order.items = map Member (OrderCreate.items order_data),
            Order.status = label_in_progress,
            created_at = now\<rparr>),
         next_order_id := next_order_id s + 1\<rparr>)"
  by (simp add: create_order_def Let_def print_preparing_text)

section \<open>The menu lookup\<close>

lemma map_of_menu_items_Str: "map_of menu_items (Str v) = None"
  by (simp add: menu_items_def)

lemma get_menu_item_always_404:
  "get_menu_item item_name =
     Inl (HTTPException 404 (ItemNotFound item_name (map fst menu_items)))"
  by (simp add: get_menu_item_def map_of_menu_items_Str)

text \<open>
  C1. The claim: \<open>GET /menu/{item_name}\<close> answers 200 with the item for each of the four
  menu identifiers, and 404 with the list of valid identifiers otherwise. The code answers
  404 for the identifier of \<open>HAVOV\<close> too: the keys of \<open>menu_items\<close> are members of
  \<open>ShawarmaType\<close> and the name looked up is a \<open>str\<close>, which equals none of them.
\<close>

theorem get_menu_item_known_name:
  "get_menu_item (ShawarmaType_value HAVOV) =
     Inl (HTTPException 404
       (ItemNotFound (ShawarmaType_value HAVOV)
          [Member HAVOV, Member TAVAROV, Member BANJAR, Member HATUK]))"
  by (simp add: get_menu_item_def menu_items_def)

section \<open>Creating an order\<close>

text \<open>
  C4, as the claim states it, fails on two inputs whose names have stripped length 2.
  With the name \<open>An\<close> and the one item \<open>pizza\<close>, which is the value of no member of
  \<open>ShawarmaType\<close>, \<open>POST /orders\<close> is rejected for its items and stores nothing.
  With a name of two surrogate code points and no items, the order is stored and the
  counter incremented, and then \<open>print\<close> raises: the answer is the exception, not the
  created order.
\<close>

theorem create_order_valid_name_fails:
  "2 \<le> length (strip [0x41, 0x6E]) \<and>
   post_orders [0x41, 0x6E] [ascii ''pizza''] (Some []) 7 init_state =
     (Inl (RequestValidationError [''items'']), init_state) \<and>
   2 \<le> length (strip [0xD800, 0xD800]) \<and>
   post_orders [0xD800, 0xD800] [] (Some []) 7 init_state =
     (Inl UnicodeEncodeError,
      \<lparr>orders_storage = [1 \<mapsto>
           \<lparr>id' = 1, Order.customer_name = [0xD800, 0xD800], Order.items = [],
            Order.status = label_in_progress, created_at = 7\<rparr>],
       next_order_id = 2\<rparr>)"
  by (simp add: ascii_def strip_def isspace_def init_state_def post_orders_def
      OrderCreate_validate_def validate_name_def ShawarmaType_of_value_def
      ShawarmaType_members_def create_order_unfold stdout_encodable_def)

text \<open>
  C4, amended. For every \<open>customer_name\<close> whose stripped length is at least 2 and whose
  stripped text the console can encode, and items that are values of \<open>ShawarmaType\<close>,
  \<open>POST /orders\<close> takes the identifier \<open>next_order_id\<close>, builds an order with the
  in-progress label and the stripped name, stores it under that identifier, increments the
  counter and returns the order. For every \<open>customer_name\<close> whose stripped length is
  below 2 the request is rejected with status 422 and the state is unchanged; a name of
  whitespace only is such a name.
\<close>

theorem create_order_name_rule:
  "(2 \<le> length (strip raw_name) \<and> list_all stdout_encodable (strip raw_name) \<longrightarrow>
      post_orders raw_name (map ShawarmaType_value members) raw_requests now s =
        (Inr (Create_response
               \<lparr>OrderResponse.status = label_response_ready,
                order =
                  \<lparr>id' = next_order_id s, Order.customer_name = strip raw_name,
                   Order.items = map Member members, Order.status = label_in_progress,
                   created_at = now\<rparr>,
                message = OrderCreated (next_order_id s)\<rparr>),
         s\<lparr>orders_storage := (orders_storage s)(next_order_id s \<mapsto>
              \<lparr>id' = next_order_id s, Order.customer_name = strip raw_name,
               Order.items = map Member members, Order.status = label_in_progress,
               created_at = now\<rparr>),
           next_order_id := next_order_id s + 1\<rparr>)) \<and>
   (length (strip raw_name) < 2 \<longrightarrow>
      (\<exists>fields. post_orders raw_name raw_items raw_requests now s =
         (Inl (RequestValidationError fields), s)) \<and>
      status_code (projl (fst (post_orders raw_name raw_items raw_requests now s))) = 422) \<and>
   ((\<forall>c\<in>set raw_name. isspace c) \<longrightarrow> length (strip raw_name) < 2)"
proof (intro conjI impI)
  assume "2 \<le> length (strip raw_name) \<and> list_all stdout_encodable (strip raw_name)"
  then show "post_orders raw_name (map ShawarmaType_value members) raw_requests now s =
        (Inr (Create_response
               \<lparr>OrderResponse.status = label_response_ready,
                order =
                  \<lparr>id' = next_order_id s, Order.customer_name = strip raw_name,
                   Order.items = map Member members, Order.status = label_in_progress,
                   created_at = now\<rparr>,
                message = OrderCreated (next_order_id s)\<rparr>),
         s\<lparr>orders_storage := (orders_storage s)(next_order_id s \<mapsto>
              \<lparr>id' = next_order_id s, Order.customer_name = strip raw_name,
               Order.items = map Member members, Order.status = label_in_progress,
               created_at = now\<rparr>),
           next_order_id := next_order_id s + 1\<rparr>)"
    by (simp add: post_orders_def OrderCreate_validate_ok create_order_unfold)
next
  assume short: "length (strip raw_name) < 2"
  show "\<exists>fields. post_orders raw_name raw_items raw_requests now s =
         (Inl (RequestValidationError fields), s)"
    by (simp add: post_orders_def OrderCreate_validate_short_name [OF short])
  show "status_code (projl (fst (post_orders raw_name raw_items raw_requests now s))) = 422"
    by (simp add: post_orders_def OrderCreate_validate_short_name [OF short])
next
  assume "\<forall>c\<in>set raw_name. isspace c"
  then show "length (strip raw_name) < 2"
    by (simp add: strip_all_space)
qed

text \<open>
  The scenario of the specification: the name \<open>" An "\<close> with one item on the initial
  state gives the order 1 with the name \<open>"An"\<close>; the name \<open>" A "\<close> is rejected.
\<close>

theorem create_order_name_rule_witness:
  "2 \<le> length (strip [0x20, 0x41, 0x6E, 0x20]) \<and>
   list_all stdout_encodable (strip [0x20, 0x41, 0x6E, 0x20]) \<and>
   post_orders [0x20, 0x41, 0x6E, 0x20] [ShawarmaType_value HAVOV] (Some []) 7 init_state =
     (Inr (Create_response
            \<lparr>OrderResponse.status = label_response_ready,
             order =
               \<lparr>id' = 1, Order.customer_name = [0x41, 0x6E], Order.items = [Member HAVOV],
                Order.status = label_in_progress, created_at = 7\<rparr>,
             message = OrderCreated 1\<rparr>),
      \<lparr>orders_storage = [1 \<mapsto>
           \<lparr>id' = 1, Order.customer_name = [0x41, 0x6E], Order.items = [Member HAVOV],
            Order.status = label_in_progress, created_at = 7\<rparr>],
       next_order_id = 2\<rparr>) \<and>
   length (strip [0x20, 0x41, 0x20]) < 2 \<and>
   post_orders [0x20, 0x41, 0x20] [ShawarmaType_value HAVOV] (Some []) 7 init_state =
     (Inl (RequestValidationError [''customer_name'']), init_state) \<and>
   isspace 0x20 \<and> isspace 0x09 \<and> length (strip [0x20, 0x09, 0x20]) < 2"
  using create_order_name_rule [of "[0x20, 0x41, 0x6E, 0x20]" "[HAVOV]" "Some []" 7 init_state
      "[ShawarmaType_value HAVOV]"]
    create_order_name_rule [of "[0x20, 0x41, 0x20]" "[HAVOV]" "Some []" 7 init_state
      "[ShawarmaType_value HAVOV]"]
    create_order_name_rule [of "[0x20, 0x09, 0x20]" "[HAVOV]" "Some []" 7 init_state
      "[ShawarmaType_value HAVOV]"]
  by (simp add: strip_def isspace_def init_state_def post_orders_def OrderCreate_validate_def
      validate_name_def ShawarmaType_of_value_def ShawarmaType_members_def create_order_unfold
      stdout_encodable_def)

section \<open>Facts about sessions\<close>

lemma run_Cons [simp]:
  "run (r # rs) s =
     (fst (step r s) # fst (run rs (snd (step r s))), snd (run rs (snd (step r s))))"
  by (simp split: prod.splits)

declare run.simps(2) [simp del]

text \<open>The label tested by \<open>cancel_order\<close> is not the label tested by \<open>update_order\<close>.\<close>

lemma labels_distinct: "label_ready \<noteq> label_in_progress"
  by (simp add: label_ready_def label_in_progress_def)

section \<open>Cancelling an order\<close>

lemma cancel_order_keeps_ready:
  "orders_storage s order_id = Some stored \<Longrightarrow> Order.status stored = label_ready \<Longrightarrow>
   orders_storage (snd (cancel_order i s)) order_id = Some stored"
  by (auto simp: cancel_order_def split: option.splits)

lemma run_cancel_keeps_ready:
  "orders_storage s order_id = Some stored \<Longrightarrow> Order.status stored = label_ready \<Longrightarrow>
   orders_storage (snd (run (map DeleteOrder ids) s)) order_id = Some stored"
proof (induction ids arbitrary: s)
  case Nil
  then show ?case by simp
next
  case (Cons i ids)
  have "orders_storage (snd (cancel_order i s)) order_id = Some stored"
    using Cons.prems by (rule cancel_order_keeps_ready)
  then have "orders_storage (snd (run (map DeleteOrder ids) (snd (cancel_order i s)))) order_id
      = Some stored"
    using Cons.prems(2) by (rule Cons.IH)
  then show ?case
    by simp
qed

text \<open>
  C2. For every order identifier present in the store, \<open>cancel_order\<close> fails with
  status 422 when the status of the order equals the label \<open>label_ready\<close>, leaving the
  state as it was, so that the order is still stored after any further series of
  cancellations; otherwise it deletes the entry of the store and returns the
  confirmation.
\<close>

theorem cancel_order_rule:
  "orders_storage s order_id = Some stored \<Longrightarrow>
   (Order.status stored = label_ready \<longrightarrow>
      cancel_order order_id s = (Inl (HTTPException 422 ReadyOrderNoCancel), s) \<and>
      orders_storage (snd (run (map DeleteOrder ids) s)) order_id = Some stored) \<and>
   (Order.status stored \<noteq> label_ready \<longrightarrow>
      cancel_order order_id s =
        (Inr (Cancel_response (ascii ''cancelled'') (OrderCancelled order_id)),
         s\<lparr>orders_storage := (orders_storage s)(order_id := None)\<rparr>) \<and>
      orders_storage (snd (cancel_order order_id s)) order_id = None)"
  by (simp add: cancel_order_def run_cancel_keeps_ready)

theorem cancel_order_rule_witness:
  "cancel_order 5
     \<lparr>orders_storage = [5 \<mapsto>
        \<lparr>id' = 5, Order.customer_name = [0x41, 0x6E], Order.items = [Member HAVOV],
         Order.status = label_ready, created_at = 7\<rparr>],
      next_order_id = 6\<rparr> =
     (Inl (HTTPException 422 ReadyOrderNoCancel),
      \<lparr>orders_storage = [5 \<mapsto>
        \<lparr>id' = 5, Order.customer_name = [0x41, 0x6E], Order.items = [Member HAVOV],
         Order.status = label_ready, created_at = 7\<rparr>],
      next_order_id = 6\<rparr>) \<and>
   orders_storage (snd (run (map DeleteOrder [5, 4, 5])
     \<lparr>orders_storage = [5 \<mapsto>
        \<lparr>id' = 5, Order.customer_name = [0x41, 0x6E], Order.items = [Member HAVOV],
         Order.status = label_ready, created_at = 7\<rparr>],
      next_order_id = 6\<rparr>)) 5 =
     Some \<lparr>id' = 5, Order.customer_name = [0x41, 0x6E], Order.items = [Member HAVOV],
         Order.status = label_ready, created_at = 7\<rparr> \<and>
   cancel_order 5
     \<lparr>orders_storage = [5 \<mapsto>
        \<lparr>id' = 5, Order.customer_name = [0x41, 0x6E], Order.items = [Member HAVOV],
         Order.status = label_in_progress, created_at = 7\<rparr>],
      next_order_id = 6\<rparr> =
     (Inr (Cancel_response (ascii ''cancelled'') (OrderCancelled 5)),
      \<lparr>orders_storage = Map.empty, next_order_id = 6\<rparr>)"
  using
    cancel_order_rule [of
      "\<lparr>orders_storage = [5 \<mapsto>
        \<lparr>id' = 5, Order.customer_name = [0x41, 0x6E], Order.items = [Member HAVOV],
         Order.status = label_ready, created_at = 7\<rparr>],
      next_order_id = 6\<rparr>" 5
      "\<lparr>id' = 5, Order.customer_name = [0x41, 0x6E], Order.items = [Member HAVOV],
         Order.status = label_ready, created_at = 7\<rparr>" "[5, 4, 5]"]
    cancel_order_rule [of
      "\<lparr>orders_storage = [5 \<mapsto>
        \<lparr>id' = 5, Order.customer_name = [0x41, 0x6E], Order.items = [Member HAVOV],
         Order.status = label_in_progress, created_at = 7\<rparr>],
      next_order_id = 6\<rparr>" 5
      "\<lparr>id' = 5, Order.customer_name = [0x41, 0x6E], Order.items = [Member HAVOV],
         Order.status = label_in_progress, created_at = 7\<rparr>" "[]"]
  by (simp add: cancel_order_def labels_distinct [symmetric])

section \<open>Updating the items of an order\<close>

text \<open>
  C3. \<open>update_order\<close> fails with status 404 when no order is stored under the
  identifier, fails with status 422 when the status of the stored order is not the
  in-progress label, and otherwise replaces the items of the stored order by the new list
  and returns the updated order.
\<close>

theorem update_order_rule:
  "(orders_storage s order_id = None \<longrightarrow>
      update_order order_id new_items s = (Inl (HTTPException 404 (OrderNotFound order_id)), s)) \<and>
   (orders_storage s order_id = Some stored \<and> Order.status stored \<noteq> label_in_progress \<longrightarrow>
      update_order order_id new_items s = (Inl (HTTPException 422 ReadyOrderNoUpdate), s)) \<and>
   (orders_storage s order_id = Some stored \<and> Order.status stored = label_in_progress \<longrightarrow>
      update_order order_id new_items s =
        (Inr (Order_response (ascii ''updated'') (stored\<lparr>Order.items := map Str new_items\<rparr>)),
         s\<lparr>orders_storage :=
              (orders_storage s)(order_id \<mapsto> stored\<lparr>Order.items := map Str new_items\<rparr>)\<rparr>))"
  by (simp add: update_order_def Let_def)

theorem update_order_rule_witness:
  "update_order 3 [ShawarmaType_value HATUK] init_state =
     (Inl (HTTPException 404 (OrderNotFound 3)), init_state) \<and>
   update_order 1 [ShawarmaType_value HATUK]
     \<lparr>orders_storage = [1 \<mapsto>
        \<lparr>id' = 1, Order.customer_name = [0x41, 0x6E], Order.items = [Member HAVOV],
         Order.status = label_ready, created_at = 7\<rparr>],
      next_order_id = 2\<rparr> =
     (Inl (HTTPException 422 ReadyOrderNoUpdate),
      \<lparr>orders_storage = [1 \<mapsto>
        \<lparr>id' = 1, Order.customer_name = [0x41, 0x6E], Order.items = [Member HAVOV],
         Order.status = label_ready, created_at = 7\<rparr>],
      next_order_id = 2\<rparr>) \<and>
   update_order 1 [ShawarmaType_value HATUK]
     \<lparr>orders_storage = [1 \<mapsto>
        \<lparr>id' = 1, Order.customer_name = [0x41, 0x6E], Order.items = [Member HAVOV],
         Order.status = label_in_progress, created_at = 7\<rparr>],
      next_order_id = 2\<rparr> =
     (Inr (Order_response (ascii ''updated'')
        \<lparr>id' = 1, Order.customer_name = [0x41, 0x6E],
         Order.items = [Str (ShawarmaType_value HATUK)],
         Order.status = label_in_progress, created_at = 7\<rparr>),
      \<lparr>orders_storage = [1 \<mapsto>
        \<lparr>id' = 1, Order.customer_name = [0x41, 0x6E],
         Order.items = [Str (ShawarmaType_value HATUK)],
         Order.status = label_in_progress, created_at = 7\<rparr>],
      next_order_id = 2\<rparr>)"
  using
    update_order_rule [of init_state 3 "[ShawarmaType_value HATUK]"]
    update_order_rule [of
      "\<lparr>orders_storage = [1 \<mapsto>
        \<lparr>id' = 1, Order.customer_name = [0x41, 0x6E], Order.items = [Member HAVOV],
         Order.status = label_ready, created_at = 7\<rparr>],
      next_order_id = 2\<rparr>" 1 "[ShawarmaType_value HATUK]"
      "\<lparr>id' = 1, Order.customer_name = [0x41, 0x6E], Order.items = [Member HAVOV],
         Order.status = label_ready, created_at = 7\<rparr>"]
    update_order_rule [of
      "\<lparr>orders_storage = [1 \<mapsto>
        \<lparr>id' = 1, Order.customer_name = [0x41, 0x6E], Order.items = [Member HAVOV],
         Order.status = label_in_progress, created_at = 7\<rparr>],
      next_order_id = 2\<rparr>" 1 "[ShawarmaType_value HATUK]"
      "\<lparr>id' = 1, Order.customer_name = [0x41, 0x6E], Order.items = [Member HAVOV],
         Order.status = label_in_progress, created_at = 7\<rparr>"]
  by (simp add: init_state_def labels_distinct)

section \<open>Reading an order back\<close>

lemma post_orders_Inr:
  "post_orders raw_name raw_items raw_requests now s = (Inr resp, s') \<Longrightarrow>
   \<exists>order_data.
     OrderCreate_validate raw_name raw_items raw_requests = Inr order_data \<and>
     create_order order_data now s = (Inr resp, s')"
  by (auto simp: post_orders_def split: sum.splits)

text \<open>
  C7. A successful \<open>cancel_order\<close> deletes the entry of the store (nothing else of the
  state changes), and \<open>get_order\<close> on the same identifier then fails with status 404.
\<close>

theorem cancel_then_get_order:
  "cancel_order order_id s = (Inr confirmation, s') \<Longrightarrow>
   s' = s\<lparr>orders_storage := (orders_storage s)(order_id := None)\<rparr> \<and>
   orders_storage s' order_id = None \<and>
   get_order order_id s' = (Inl (HTTPException 404 (OrderNotFound order_id)), s') \<and>
   status_code (HTTPException 404 (OrderNotFound order_id)) = 404"
  by (auto simp: cancel_order_def get_order_def split: option.splits if_splits)

theorem cancel_then_get_order_witness:
  "cancel_order 1
     \<lparr>orders_storage = [1 \<mapsto>
        \<lparr>id' = 1, Order.customer_name = [0x41, 0x6E], Order.items = [Member HAVOV],
         Order.status = label_in_progress, created_at = 7\<rparr>],
      next_order_id = 2\<rparr> =
     (Inr (Cancel_response (ascii ''cancelled'') (OrderCancelled 1)),
      \<lparr>orders_storage = Map.empty, next_order_id = 2\<rparr>) \<and>
   get_order 1 \<lparr>orders_storage = Map.empty, next_order_id = 2\<rparr> =
     (Inl (HTTPException 404 (OrderNotFound 1)),
      \<lparr>orders_storage = Map.empty, next_order_id = 2\<rparr>)"
proof -
  have c: "cancel_order 1
     \<lparr>orders_storage = [1 \<mapsto>
        \<lparr>id' = 1, Order.customer_name = [0x41, 0x6E], Order.items = [Member HAVOV],
         Order.status = label_in_progress, created_at = 7\<rparr>],
      next_order_id = 2\<rparr> =
     (Inr (Cancel_response (ascii ''cancelled'') (OrderCancelled 1)),
      \<lparr>orders_storage = Map.empty, next_order_id = 2\<rparr>)"
    by (simp add: cancel_order_def labels_distinct [symmetric])
  from cancel_then_get_order [OF c] c show ?thesis
    by simp
qed

text \<open>
  C8. Whenever \<open>POST /orders\<close> succeeds, its answer carries the created order, and
  \<open>get_order\<close> with the identifier of that order on the state it left returns the same
  order.
\<close>

theorem create_then_get_order:
  "post_orders raw_name raw_items raw_requests now s = (Inr resp, s') \<Longrightarrow>
   \<exists>r. resp = Create_response r \<and>
     get_order (id' (order r)) s' = (Inr (Order_response (ascii ''success'') (order r)), s')"
  by (auto simp: create_order_unfold get_order_def dest!: post_orders_Inr split: if_splits)

theorem create_then_get_order_witness:
  "post_orders [0x20, 0x41, 0x6E, 0x20] [ShawarmaType_value HAVOV] (Some []) 7 init_state =
     (Inr (Create_response
            \<lparr>OrderResponse.status = label_response_ready,
             order =
               \<lparr>id' = 1, Order.customer_name = [0x41, 0x6E], Order.items = [Member HAVOV],
                Order.status = label_in_progress, created_at = 7\<rparr>,
             message = OrderCreated 1\<rparr>),
      \<lparr>orders_storage = [1 \<mapsto>
           \<lparr>id' = 1, Order.customer_name = [0x41, 0x6E], Order.items = [Member HAVOV],
            Order.status = label_in_progress, created_at = 7\<rparr>],
       next_order_id = 2\<rparr>) \<and>
   get_order 1
     \<lparr>orders_storage = [1 \<mapsto>
           \<lparr>id' = 1, Order.customer_name = [0x41, 0x6E], Order.items = [Member HAVOV],
            Order.status = label_in_progress, created_at = 7\<rparr>],
       next_order_id = 2\<rparr> =
     (Inr (Order_response (ascii ''success'')
        \<lparr>id' = 1, Order.customer_name = [0x41, 0x6E], Order.items = [Member HAVOV],
         Order.status = label_in_progress, created_at = 7\<rparr>),
      \<lparr>orders_storage = [1 \<mapsto>
           \<lparr>id' = 1, Order.customer_name = [0x41, 0x6E], Order.items = [Member HAVOV],
            Order.status = label_in_progress, created_at = 7\<rparr>],
       next_order_id = 2\<rparr>)"
proof -
  have p: "post_orders [0x20, 0x41, 0x6E, 0x20] [ShawarmaType_value HAVOV] (Some []) 7 init_state =
     (Inr (Create_response
            \<lparr>OrderResponse.status = label_response_ready,
             order =
               \<lparr>id' = 1, Order.customer_name = [0x41, 0x6E], Order.items = [Member HAVOV],
                Order.status = label_in_progress, created_at = 7\<rparr>,
             message = OrderCreated 1\<rparr>),
      \<lparr>orders_storage = [1 \<mapsto>
           \<lparr>id' = 1, Order.customer_name = [0x41, 0x6E], Order.items = [Member HAVOV],
            Order.status = label_in_progress, created_at = 7\<rparr>],
       next_order_id = 2\<rparr>)"
    by (simp add: strip_def isspace_def init_state_def post_orders_def OrderCreate_validate_def
      validate_name_def ShawarmaType_of_value_def ShawarmaType_members_def create_order_unfold stdout_encodable_def
      Let_def)
  from create_then_get_order [OF p] p show ?thesis
    by simp
qed

text \<open>
  C9. \<open>update_order\<close> on a stored order whose status is the label \<open>label_ready\<close>
  fails with status 422, and the state, the stored order with it, is unchanged.
\<close>

theorem update_ready_order_unchanged:
  "orders_storage s order_id = Some stored \<Longrightarrow> Order.status stored = label_ready \<Longrightarrow>
   update_order order_id new_items s = (Inl (HTTPException 422 ReadyOrderNoUpdate), s) \<and>
   orders_storage (snd (update_order order_id new_items s)) order_id = Some stored"
  by (simp add: update_order_def labels_distinct)

theorem update_ready_order_unchanged_witness:
  "update_order 1 [ShawarmaType_value HATUK]
     \<lparr>orders_storage = [1 \<mapsto>
        \<lparr>id' = 1, Order.customer_name = [0x41, 0x6E], Order.items = [Member HAVOV],
         Order.status = label_ready, created_at = 7\<rparr>],
      next_order_id = 2\<rparr> =
     (Inl (HTTPException 422 ReadyOrderNoUpdate),
      \<lparr>orders_storage = [1 \<mapsto>
        \<lparr>id' = 1, Order.customer_name = [0x41, 0x6E], Order.items = [Member HAVOV],
         Order.status = label_ready, created_at = 7\<rparr>],
      next_order_id = 2\<rparr>)"
  using update_ready_order_unchanged [of
      "\<lparr>orders_storage = [1 \<mapsto>
        \<lparr>id' = 1, Order.customer_name = [0x41, 0x6E], Order.items = [Member HAVOV],
         Order.status = label_ready, created_at = 7\<rparr>],
      next_order_id = 2\<rparr>" 1
      "\<lparr>id' = 1, Order.customer_name = [0x41, 0x6E], Order.items = [Member HAVOV],
         Order.status = label_ready, created_at = 7\<rparr>" "[ShawarmaType_value HATUK]"]
  by simp

section \<open>Which item identifiers an order can hold\<close>

lemma ShawarmaType_of_value_Some:
  "ShawarmaType_of_value v = Some m \<Longrightarrow> ShawarmaType_value m = v"
  by (auto simp: ShawarmaType_of_value_def ShawarmaType_members_def split: if_splits)

lemma ShawarmaType_of_value_None:
  "\<forall>m. ShawarmaType_value m \<noteq> v \<Longrightarrow> ShawarmaType_of_value v = None"
  by (simp add: ShawarmaType_of_value_def find_None_iff)

lemma those_of_value_Some:
  "those (map ShawarmaType_of_value raw_items) = Some members \<Longrightarrow>
   raw_items = map ShawarmaType_value members"
proof (induction raw_items arbitrary: members)
  case Nil
  then show ?case by simp
next
  case (Cons v vs)
  then show ?case
    by (auto split: option.splits dest: ShawarmaType_of_value_Some)
qed

lemma OrderCreate_validate_Inr:
  "OrderCreate_validate raw_name raw_items raw_requests = Inr order_data \<Longrightarrow>
   raw_items = map ShawarmaType_value (OrderCreate.items order_data)"
  by (auto simp: OrderCreate_validate_def split: sum.splits option.splits
      dest: those_of_value_Some)

lemma OrderCreate_validate_bad_item:
  assumes "v \<in> set raw_items" and "\<forall>m. ShawarmaType_value m \<noteq> v"
  shows "\<exists>fields. OrderCreate_validate raw_name raw_items raw_requests =
           Inl (RequestValidationError fields) \<and> ''items'' \<in> set fields"
proof -
  have "ShawarmaType_of_value v = None"
    using assms(2) by (rule ShawarmaType_of_value_None)
  then have "None \<in> set (map ShawarmaType_of_value raw_items)"
    using assms(1) by force
  then have "those (map ShawarmaType_of_value raw_items) = None"
    by (simp only: those_None_iff)
  then show ?thesis
    by (simp add: OrderCreate_validate_def split: sum.splits)
qed

text \<open>
  C5, as the claim states it for order creation: \<open>POST /orders\<close> with a valid name and
  the one item \<open>pizza\<close>, which is not the value of any member of \<open>ShawarmaType\<close>, is
  rejected for its items, and the same request with the value of \<open>HAVOV\<close> creates the
  order.
\<close>

theorem create_order_rejects_unknown_item:
  "ascii ''pizza'' \<notin> set (map ShawarmaType_value ShawarmaType_members) \<and>
   post_orders [0x41, 0x6E] [ascii ''pizza''] (Some []) 7 init_state =
     (Inl (RequestValidationError [''items'']), init_state) \<and>
   fst (post_orders [0x41, 0x6E] [ShawarmaType_value HAVOV] (Some []) 7 init_state) =
     Inr (Create_response
            \<lparr>OrderResponse.status = label_response_ready,
             order =
               \<lparr>id' = 1, Order.customer_name = [0x41, 0x6E], Order.items = [Member HAVOV],
                Order.status = label_in_progress, created_at = 7\<rparr>,
             message = OrderCreated 1\<rparr>)"
  by (simp add: ascii_def strip_def isspace_def init_state_def post_orders_def
      OrderCreate_validate_def validate_name_def ShawarmaType_of_value_def
      ShawarmaType_members_def create_order_unfold stdout_encodable_def Let_def)

text \<open>
  C5, amended. \<open>update_order\<close> stores whatever list of strings it is given, so an
  updated order may hold identifiers that are not in the menu. \<open>POST /orders\<close> validates
  its items against the four values of \<open>ShawarmaType\<close>: when it succeeds, every item
  supplied is the value of a member and the order holds these members; when some item is
  the value of no member, the request is rejected for its items and the state is unchanged.
\<close>

theorem order_items_validation:
  "(orders_storage s order_id = Some stored \<and> Order.status stored = label_in_progress \<longrightarrow>
      orders_storage (snd (update_order order_id new_items s)) order_id =
        Some (stored\<lparr>Order.items := map Str new_items\<rparr>)) \<and>
   (post_orders raw_name raw_items raw_requests now s = (Inr (Create_response r), s') \<longrightarrow>
      (\<exists>members. raw_items = map ShawarmaType_value members \<and>
         Order.items (order r) = map Member members)) \<and>
   ((\<exists>v\<in>set raw_items. \<forall>m. ShawarmaType_value m \<noteq> v) \<longrightarrow>
      (\<exists>fields. post_orders raw_name raw_items raw_requests now s =
           (Inl (RequestValidationError fields), s) \<and> ''items'' \<in> set fields))"
proof (intro conjI impI)
  assume "orders_storage s order_id = Some stored \<and> Order.status stored = label_in_progress"
  then show "orders_storage (snd (update_order order_id new_items s)) order_id =
        Some (stored\<lparr>Order.items := map Str new_items\<rparr>)"
    by (simp add: update_order_def Let_def)
next
  assume "post_orders raw_name raw_items raw_requests now s = (Inr (Create_response r), s')"
  then obtain order_data where
    v: "OrderCreate_validate raw_name raw_items raw_requests = Inr order_data" and
    c: "create_order order_data now s = (Inr (Create_response r), s')"
    by (auto dest: post_orders_Inr)
  have "raw_items = map ShawarmaType_value (OrderCreate.items order_data)"
    using v by (rule OrderCreate_validate_Inr)
  moreover have "Order.items (order r) = map Member (OrderCreate.items order_data)"
    using c by (auto simp: create_order_unfold split: if_splits)
  ultimately show "\<exists>members. raw_items = map ShawarmaType_value members \<and>
         Order.items (order r) = map Member members"
    by blast
next
  assume "\<exists>v\<in>set raw_items. \<forall>m. ShawarmaType_value m \<noteq> v"
  then obtain v where "v \<in> set raw_items" and "\<forall>m. ShawarmaType_value m \<noteq> v"
    by blast
  then obtain fields where
    "OrderCreate_validate raw_name raw_items raw_requests = Inl (RequestValidationError fields)"
    and "''items'' \<in> set fields"
    using OrderCreate_validate_bad_item by blast
  then show "\<exists>fields. post_orders raw_name raw_items raw_requests now s =
           (Inl (RequestValidationError fields), s) \<and> ''items'' \<in> set fields"
    by (simp add: post_orders_def)
qed

theorem order_items_validation_witness:
  "orders_storage (snd (update_order 1 [ascii ''pizza'']
     \<lparr>orders_storage = [1 \<mapsto>
        \<lparr>id' = 1, Order.customer_name = [0x41, 0x6E], Order.items = [Member HAVOV],
         Order.status = label_in_progress, created_at = 7\<rparr>],
      next_order_id = 2\<rparr>)) 1 =
     Some \<lparr>id' = 1, Order.customer_name = [0x41, 0x6E], Order.items = [Str (ascii ''pizza'')],
         Order.status = label_in_progress, created_at = 7\<rparr> \<and>
   fst (post_orders [0x41, 0x6E] [ShawarmaType_value HAVOV, ascii ''pizza''] (Some []) 7
     init_state) = Inl (RequestValidationError [''items'']) \<and>
   post_orders [0x41, 0x6E] [ShawarmaType_value HATUK] (Some []) 7 init_state =
     (Inr (Create_response
            \<lparr>OrderResponse.status = label_response_ready,
             order =
               \<lparr>id' = 1, Order.customer_name = [0x41, 0x6E], Order.items = [Member HATUK],
                Order.status = label_in_progress, created_at = 7\<rparr>,
             message = OrderCreated 1\<rparr>),
      \<lparr>orders_storage = [1 \<mapsto>
           \<lparr>id' = 1, Order.customer_name = [0x41, 0x6E], Order.items = [Member HATUK],
            Order.status = label_in_progress, created_at = 7\<rparr>],
       next_order_id = 2\<rparr>)"
  using order_items_validation [of
      "\<lparr>orders_storage = [1 \<mapsto>
        \<lparr>id' = 1, Order.customer_name = [0x41, 0x6E], Order.items = [Member HAVOV],
         Order.status = label_in_progress, created_at = 7\<rparr>],
      next_order_id = 2\<rparr>" 1
      "\<lparr>id' = 1, Order.customer_name = [0x41, 0x6E], Order.items = [Member HAVOV],
         Order.status = label_in_progress, created_at = 7\<rparr>"
      "[ascii ''pizza'']" "[0x41, 0x6E]" "[ShawarmaType_value HAVOV, ascii ''pizza'']"
      "Some []" 7]
  by (simp add: ascii_def strip_def isspace_def init_state_def post_orders_def
      OrderCreate_validate_def validate_name_def ShawarmaType_of_value_def
      ShawarmaType_members_def create_order_unfold stdout_encodable_def Let_def update_order_def)

section \<open>The identifier counter\<close>

lemma created_ids_Cons: "created_ids (out # outs) = created_ids [out] @ created_ids outs"
proof (cases out)
  case (Inl e)
  then show ?thesis by simp
next
  case (Inr resp)
  then show ?thesis by (cases resp) simp_all
qed

lemma run_append:
  "run (pre @ post) s =
     (fst (run pre s) @ fst (run post (snd (run pre s))), snd (run post (snd (run pre s))))"
  by (induction pre arbitrary: s) simp_all

text \<open>
  One request either leaves the counter and answers no created order, or answers the
  order created under the counter and increments it, or (a creation whose \<open>print\<close>
  raises) increments it and answers the exception.
\<close>

lemma post_orders_counter:
  "(created_ids [fst (post_orders raw_name raw_items raw_requests now s)] = [] \<and>
    fst (post_orders raw_name raw_items raw_requests now s) \<noteq> Inl UnicodeEncodeError \<and>
    next_order_id (snd (post_orders raw_name raw_items raw_requests now s)) = next_order_id s) \<or>
   (created_ids [fst (post_orders raw_name raw_items raw_requests now s)] = [next_order_id s] \<and>
    next_order_id (snd (post_orders raw_name raw_items raw_requests now s)) =
      next_order_id s + 1) \<or>
   (fst (post_orders raw_name raw_items raw_requests now s) = Inl UnicodeEncodeError \<and>
    next_order_id (snd (post_orders raw_name raw_items raw_requests now s)) =
      next_order_id s + 1)"
  by (auto simp: post_orders_def OrderCreate_validate_def create_order_unfold
      split: sum.splits option.splits)

lemma update_order_counter:
  "created_ids [fst (update_order order_id new_items s)] = [] \<and>
   fst (update_order order_id new_items s) \<noteq> Inl UnicodeEncodeError \<and>
   next_order_id (snd (update_order order_id new_items s)) = next_order_id s"
  by (simp add: update_order_def Let_def split: option.splits)

lemma cancel_order_counter:
  "created_ids [fst (cancel_order order_id s)] = [] \<and>
   fst (cancel_order order_id s) \<noteq> Inl UnicodeEncodeError \<and>
   next_order_id (snd (cancel_order order_id s)) = next_order_id s"
  by (simp add: cancel_order_def split: option.splits)

lemma get_order_counter:
  "created_ids [fst (get_order order_id s)] = [] \<and>
   fst (get_order order_id s) \<noteq> Inl UnicodeEncodeError \<and> snd (get_order order_id s) = s"
  by (simp add: get_order_def split: option.splits)

lemma get_menu_item_counter:
  "created_ids [get_menu_item item_name] = [] \<and>
   get_menu_item item_name \<noteq> Inl UnicodeEncodeError"
  by (simp add: get_menu_item_def split: option.splits)

lemma step_counter:
  "(created_ids [fst (step req s)] = [] \<and> fst (step req s) \<noteq> Inl UnicodeEncodeError \<and>
    next_order_id (snd (step req s)) = next_order_id s) \<or>
   (created_ids [fst (step req s)] = [next_order_id s] \<and>
    next_order_id (snd (step req s)) = next_order_id s + 1) \<or>
   (fst (step req s) = Inl UnicodeEncodeError \<and>
    next_order_id (snd (step req s)) = next_order_id s + 1)"
proof (cases req)
  case (PostOrders raw_name raw_items raw_requests now)
  then show ?thesis
    using post_orders_counter [of raw_name raw_items raw_requests now s] by simp
qed (simp_all add: ping_def get_menu_def get_menu_item_counter get_order_counter
    update_order_counter cancel_order_counter)

lemma step_counter_mono: "next_order_id s \<le> next_order_id (snd (step req s))"
  using step_counter [of req s] by auto

lemma run_counter_mono: "next_order_id s \<le> next_order_id (snd (run reqs s))"
proof (induction reqs arbitrary: s)
  case Nil
  then show ?case by simp
next
  case (Cons req reqs)
  have "next_order_id s \<le> next_order_id (snd (step req s))"
    by (rule step_counter_mono)
  also have "\<dots> \<le> next_order_id (snd (run reqs (snd (step req s))))"
    by (rule Cons.IH)
  finally show ?case by simp
qed

text \<open>
  The identifiers answered in a session increase strictly and lie between the counter
  before and the counter after.
\<close>

lemma run_created_ids:
  "sorted_wrt (<) (created_ids (fst (run reqs s))) \<and>
   set (created_ids (fst (run reqs s))) \<subseteq>
     {next_order_id s ..< next_order_id (snd (run reqs s))}"
proof (induction reqs arbitrary: s)
  case Nil
  then show ?case by simp
next
  case (Cons req reqs)
  let ?s1 = "snd (step req s)"
  let ?s2 = "snd (run reqs ?s1)"
  have ih: "sorted_wrt (<) (created_ids (fst (run reqs ?s1)))"
    "set (created_ids (fst (run reqs ?s1))) \<subseteq> {next_order_id ?s1 ..< next_order_id ?s2}"
    using Cons.IH [of ?s1] by simp_all
  have mono: "next_order_id ?s1 \<le> next_order_id ?s2"
    by (rule run_counter_mono)
  have ids: "created_ids (fst (run (req # reqs) s)) =
      created_ids [fst (step req s)] @ created_ids (fst (run reqs ?s1))"
    using created_ids_Cons [of "fst (step req s)" "fst (run reqs ?s1)"] by simp
  consider
    (same) "created_ids [fst (step req s)] = []" "next_order_id ?s1 = next_order_id s" |
    (created) "created_ids [fst (step req s)] = [next_order_id s]"
      "next_order_id ?s1 = next_order_id s + 1" |
    (failed) "created_ids [fst (step req s)] = []" "next_order_id ?s1 = next_order_id s + 1"
    using step_counter [of req s] by auto
  then show ?case
  proof cases
    case same
    then show ?thesis
      using ih ids by simp
  next
    case created
    then show ?thesis
      using ih ids mono by (auto simp: sorted_wrt_append)
  next
    case failed
    then show ?thesis
      using ih ids by auto
  qed
qed

text \<open>When no \<open>print\<close> raises, the identifiers answered are all those the counter passed.\<close>

lemma run_created_ids_exact:
  "Inl UnicodeEncodeError \<notin> set (fst (run reqs s)) \<Longrightarrow>
   created_ids (fst (run reqs s)) = [next_order_id s .. next_order_id (snd (run reqs s)) - 1]"
proof (induction reqs arbitrary: s)
  case Nil
  then show ?case by simp
next
  case (Cons req reqs)
  let ?s1 = "snd (step req s)"
  let ?s2 = "snd (run reqs ?s1)"
  have no: "fst (step req s) \<noteq> Inl UnicodeEncodeError"
    "Inl UnicodeEncodeError \<notin> set (fst (run reqs ?s1))"
    using Cons.prems by auto
  have ih: "created_ids (fst (run reqs ?s1)) = [next_order_id ?s1 .. next_order_id ?s2 - 1]"
    using no(2) by (rule Cons.IH)
  have mono: "next_order_id ?s1 \<le> next_order_id ?s2"
    by (rule run_counter_mono)
  have ids: "created_ids (fst (run (req # reqs) s)) =
      created_ids [fst (step req s)] @ created_ids (fst (run reqs ?s1))"
    using created_ids_Cons [of "fst (step req s)" "fst (run reqs ?s1)"] by simp
  consider
    (same) "created_ids [fst (step req s)] = []" "next_order_id ?s1 = next_order_id s" |
    (created) "created_ids [fst (step req s)] = [next_order_id s]"
      "next_order_id ?s1 = next_order_id s + 1"
    using step_counter [of req s] no(1) by blast
  then show ?case
  proof cases
    case same
    then show ?thesis
      using ih ids by simp
  next
    case created
    have "[next_order_id s .. next_order_id ?s2 - 1] =
        next_order_id s # [next_order_id s + 1 .. next_order_id ?s2 - 1]"
      using mono created(2) by (simp add: upto_rec1)
    then show ?thesis
      using ih ids created by simp
  qed
qed

text \<open>
  Every order in the store is stored under its own identifier, which is at least 1 and
  below the counter.
\<close>

lemma create_order_keys:
  assumes "1 \<le> next_order_id s"
    and "\<forall>k stored. orders_storage s k = Some stored \<longrightarrow>
           id' stored = k \<and> 1 \<le> k \<and> k < next_order_id s"
  shows "\<forall>k stored. orders_storage (snd (create_order order_data now s)) k = Some stored \<longrightarrow>
           id' stored = k \<and> 1 \<le> k \<and> k < next_order_id (snd (create_order order_data now s))"
proof (intro allI impI)
  fix k stored
  assume a: "orders_storage (snd (create_order order_data now s)) k = Some stored"
  show "id' stored = k \<and> 1 \<le> k \<and> k < next_order_id (snd (create_order order_data now s))"
  proof (cases "k = next_order_id s")
    case True
    then show ?thesis
      using a assms(1) by (auto simp: create_order_unfold)
  next
    case False
    then have "orders_storage s k = Some stored"
      using a by (simp add: create_order_unfold)
    then have "id' stored = k \<and> 1 \<le> k \<and> k < next_order_id s"
      using assms(2) by blast
    then show ?thesis
      by (simp add: create_order_unfold)
  qed
qed

lemma update_order_keys:
  assumes "\<forall>k stored. orders_storage s k = Some stored \<longrightarrow>
           id' stored = k \<and> 1 \<le> k \<and> k < next_order_id s"
  shows "\<forall>k stored. orders_storage (snd (update_order order_id new_items s)) k = Some stored \<longrightarrow>
           id' stored = k \<and> 1 \<le> k \<and> k < next_order_id (snd (update_order order_id new_items s))"
proof (intro allI impI)
  fix k stored
  assume a: "orders_storage (snd (update_order order_id new_items s)) k = Some stored"
  show "id' stored = k \<and> 1 \<le> k \<and> k < next_order_id (snd (update_order order_id new_items s))"
  proof (cases "orders_storage s k")
    case None
    then show ?thesis
      using a by (auto simp: update_order_def Let_def split: option.splits if_splits)
  next
    case (Some old)
    then have old: "id' old = k \<and> 1 \<le> k \<and> k < next_order_id s"
      using assms by blast
    have "id' stored = id' old"
      using a Some by (auto simp: update_order_def Let_def split: option.splits if_splits)
    then show ?thesis
      using old by (simp add: update_order_counter)
  qed
qed

lemma cancel_order_keys:
  assumes "\<forall>k stored. orders_storage s k = Some stored \<longrightarrow>
           id' stored = k \<and> 1 \<le> k \<and> k < next_order_id s"
  shows "\<forall>k stored. orders_storage (snd (cancel_order order_id s)) k = Some stored \<longrightarrow>
           id' stored = k \<and> 1 \<le> k \<and> k < next_order_id (snd (cancel_order order_id s))"
proof (intro allI impI)
  fix k stored
  assume a: "orders_storage (snd (cancel_order order_id s)) k = Some stored"
  then have "orders_storage s k = Some stored"
    by (auto simp: cancel_order_def split: option.splits if_splits)
  then have "id' stored = k \<and> 1 \<le> k \<and> k < next_order_id s"
    using assms by blast
  then show "id' stored = k \<and> 1 \<le> k \<and> k < next_order_id (snd (cancel_order order_id s))"
    by (simp add: cancel_order_counter)
qed

lemma step_keys:
  assumes "1 \<le> next_order_id s"
    and "\<forall>k stored. orders_storage s k = Some stored \<longrightarrow>
           id' stored = k \<and> 1 \<le> k \<and> k < next_order_id s"
  shows "\<forall>k stored. orders_storage (snd (step req s)) k = Some stored \<longrightarrow>
           id' stored = k \<and> 1 \<le> k \<and> k < next_order_id (snd (step req s))"
proof (cases req)
  case Ping
  then show ?thesis using assms(2) by simp
next
  case GetMenu
  then show ?thesis using assms(2) by simp
next
  case (GetMenuItem item_name)
  then show ?thesis using assms(2) by simp
next
  case (PostOrders raw_name raw_items raw_requests now)
  show ?thesis
  proof (cases "OrderCreate_validate raw_name raw_items raw_requests")
    case (Inl e)
    then show ?thesis
      using PostOrders assms(2) by (simp add: post_orders_def)
  next
    case (Inr order_data)
    then have "step req s = create_order order_data now s"
      using PostOrders by (simp add: post_orders_def)
    then show ?thesis
      using create_order_keys [OF assms, of order_data now] by simp
  qed
next
  case (GetOrder order_id)
  then show ?thesis using assms(2) by (simp add: get_order_counter)
next
  case (PutOrder order_id new_items)
  then show ?thesis using update_order_keys [OF assms(2), of order_id new_items] by simp
next
  case (DeleteOrder order_id)
  then show ?thesis using cancel_order_keys [OF assms(2), of order_id] by simp
qed

lemma run_keys:
  "1 \<le> next_order_id s \<Longrightarrow>
   \<forall>k stored. orders_storage s k = Some stored \<longrightarrow>
     id' stored = k \<and> 1 \<le> k \<and> k < next_order_id s \<Longrightarrow>
   \<forall>k stored. orders_storage (snd (run reqs s)) k = Some stored \<longrightarrow>
     id' stored = k \<and> 1 \<le> k \<and> k < next_order_id (snd (run reqs s))"
proof (induction reqs arbitrary: s)
  case Nil
  then show ?case by simp
next
  case (Cons req reqs)
  have 1: "1 \<le> next_order_id (snd (step req s))"
    using Cons.prems(1) step_counter_mono [of s req] by linarith
  have 2: "\<forall>k stored. orders_storage (snd (step req s)) k = Some stored \<longrightarrow>
      id' stored = k \<and> 1 \<le> k \<and> k < next_order_id (snd (step req s))"
    using Cons.prems by (rule step_keys)
  have "\<forall>k stored. orders_storage (snd (run reqs (snd (step req s)))) k = Some stored \<longrightarrow>
      id' stored = k \<and> 1 \<le> k \<and> k < next_order_id (snd (run reqs (snd (step req s))))"
    using 1 2 by (rule Cons.IH)
  then show ?case
    by (simp only: run_Cons snd_conv)
qed

lemma run_init_keys:
  "orders_storage (snd (run reqs init_state)) k = Some stored \<Longrightarrow>
   id' stored = k \<and> 1 \<le> k \<and> k < next_order_id (snd (run reqs init_state))"
proof -
  have "1 \<le> next_order_id init_state"
    by (simp add: init_state_def)
  moreover have "\<forall>k stored. orders_storage init_state k = Some stored \<longrightarrow>
     id' stored = k \<and> 1 \<le> k \<and> k < next_order_id init_state"
    by (simp add: init_state_def)
  ultimately have "\<forall>k stored. orders_storage (snd (run reqs init_state)) k = Some stored \<longrightarrow>
     id' stored = k \<and> 1 \<le> k \<and> k < next_order_id (snd (run reqs init_state))"
    by (rule run_keys)
  then show "orders_storage (snd (run reqs init_state)) k = Some stored \<Longrightarrow>
   id' stored = k \<and> 1 \<le> k \<and> k < next_order_id (snd (run reqs init_state))"
    by blast
qed

lemma post_orders_created_id:
  assumes "post_orders raw_name raw_items raw_requests now s = (Inr resp, s')"
  shows "(\<exists>r. resp = Create_response r \<and> id' (order r) = next_order_id s \<and>
      orders_storage s' (next_order_id s) = Some (order r)) \<and>
   next_order_id s' = next_order_id s + 1"
proof -
  obtain order_data where
    c: "create_order order_data now s = (Inr resp, s')"
    using assms by (auto dest: post_orders_Inr)
  then show ?thesis
    by (simp add: create_order_unfold split: if_splits) auto
qed

text \<open>
  C6. The counter starts at 1. In every session from the initial state, whatever requests
  it interleaves, the identifiers of the orders answered by successful creations increase
  strictly, so none occurs twice, and lie from 1 up to the counter; when no \<open>print\<close>
  raised they are exactly 1, 2, 3, ... up to the counter. Every order stored at any point
  of a session is stored under its own identifier, at least 1 and below the counter of
  that point, and a creation that succeeds at any later point returns a greater
  identifier, whether or not the order is still stored. A successful creation returns the
  counter as identifier and increments it; from any state, no request decreases the
  counter, and \<open>cancel_order\<close> leaves it as it is.
\<close>

theorem order_ids_sequential:
  "next_order_id init_state = 1 \<and>
   sorted_wrt (<) (created_ids (fst (run reqs init_state))) \<and>
   distinct (created_ids (fst (run reqs init_state))) \<and>
   set (created_ids (fst (run reqs init_state))) \<subseteq>
     {1 ..< next_order_id (snd (run reqs init_state))} \<and>
   (Inl UnicodeEncodeError \<notin> set (fst (run reqs init_state)) \<longrightarrow>
      created_ids (fst (run reqs init_state)) =
        [1 .. next_order_id (snd (run reqs init_state)) - 1]) \<and>
   (orders_storage (snd (run pre init_state)) k = Some stored \<longrightarrow>
      id' stored = k \<and> 1 \<le> k \<and> k < next_order_id (snd (run pre init_state))) \<and>
   (orders_storage (snd (run pre init_state)) k = Some stored \<and>
    post_orders raw_name raw_items raw_requests now (snd (run (pre @ post) init_state)) =
      (Inr (Create_response r), s') \<longrightarrow>
      id' stored < id' (order r)) \<and>
   (post_orders raw_name raw_items raw_requests now s = (Inr resp, s') \<longrightarrow>
      (\<exists>r. resp = Create_response r \<and> id' (order r) = next_order_id s) \<and>
      next_order_id s' = next_order_id s + 1) \<and>
   next_order_id s \<le> next_order_id (snd (step req s)) \<and>
   next_order_id (snd (cancel_order order_id s)) = next_order_id s"
proof (intro conjI impI)
  show "next_order_id init_state = 1"
    by (simp add: init_state_def)
  show sorted: "sorted_wrt (<) (created_ids (fst (run reqs init_state)))"
    by (simp add: run_created_ids)
  then show "distinct (created_ids (fst (run reqs init_state)))"
    by (simp add: strict_sorted_iff)
  show "set (created_ids (fst (run reqs init_state))) \<subseteq>
     {1 ..< next_order_id (snd (run reqs init_state))}"
    using run_created_ids [of reqs init_state] by (simp add: init_state_def)
next
  assume "Inl UnicodeEncodeError \<notin> set (fst (run reqs init_state))"
  then show "created_ids (fst (run reqs init_state)) =
        [1 .. next_order_id (snd (run reqs init_state)) - 1]"
    using run_created_ids_exact [of reqs init_state] by (simp add: init_state_def)
next
  assume "orders_storage (snd (run pre init_state)) k = Some stored"
  then show "id' stored = k" "1 \<le> k" "k < next_order_id (snd (run pre init_state))"
    using run_init_keys [of pre k stored] by simp_all
next
  assume a: "orders_storage (snd (run pre init_state)) k = Some stored \<and>
    post_orders raw_name raw_items raw_requests now (snd (run (pre @ post) init_state)) =
      (Inr (Create_response r), s')"
  then have "id' stored < next_order_id (snd (run pre init_state))"
    using run_init_keys [of pre k stored] by simp
  also have "\<dots> \<le> next_order_id (snd (run (pre @ post) init_state))"
    by (simp add: run_append run_counter_mono)
  also have "\<dots> = id' (order r)"
    using a post_orders_created_id
      [of raw_name raw_items raw_requests now "snd (run (pre @ post) init_state)"
        "Create_response r" s']
    by simp
  finally show "id' stored < id' (order r)" .
next
  assume "post_orders raw_name raw_items raw_requests now s = (Inr resp, s')"
  then show "\<exists>r. resp = Create_response r \<and> id' (order r) = next_order_id s"
    "next_order_id s' = next_order_id s + 1"
    using post_orders_created_id [of raw_name raw_items raw_requests now s resp s'] by auto
next
  show "next_order_id s \<le> next_order_id (snd (step req s))"
    by (rule step_counter_mono)
  show "next_order_id (snd (cancel_order order_id s)) = next_order_id s"
    by (simp add: cancel_order_counter)
qed

text \<open>
  Two sessions. In the first no \<open>print\<close> raises: the orders answered are 1 and 2, the
  second created after the first was cancelled. In the second the first creation stores
  the order 1 and raises in \<open>print\<close>: the orders answered are 2 and 3.
\<close>

theorem order_ids_sequential_witness:
  "created_ids (fst (run
     [PostOrders [0x41, 0x6E] [] None 7, DeleteOrder 1, GetOrder 1,
      PostOrders [0x41] [] None 8, PostOrders [0x41, 0x6E] [] None 9] init_state)) = [1, 2] \<and>
   next_order_id (snd (run
     [PostOrders [0x41, 0x6E] [] None 7, DeleteOrder 1, GetOrder 1,
      PostOrders [0x41] [] None 8, PostOrders [0x41, 0x6E] [] None 9] init_state)) = 3 \<and>
   orders_storage (snd (run [PostOrders [0x41, 0x6E] [] None 7] init_state)) 1 =
     Some \<lparr>id' = 1, Order.customer_name = [0x41, 0x6E], Order.items = [],
       Order.status = label_in_progress, created_at = 7\<rparr> \<and>
   fst (post_orders [0x41, 0x6E] [] None 9
     (snd (run ([PostOrders [0x41, 0x6E] [] None 7] @ [DeleteOrder 1]) init_state))) =
     Inr (Create_response
            \<lparr>OrderResponse.status = label_response_ready,
             order =
               \<lparr>id' = 2, Order.customer_name = [0x41, 0x6E], Order.items = [],
                Order.status = label_in_progress, created_at = 9\<rparr>,
             message = OrderCreated 2\<rparr>) \<and>
   created_ids (fst (run
     [PostOrders [0xD800, 0xD800] [] None 7, PostOrders [0x41, 0x6E] [] None 8, DeleteOrder 2,
      PostOrders [0x41, 0x6E] [] None 9] init_state)) = [2, 3] \<and>
   next_order_id (snd (run
     [PostOrders [0xD800, 0xD800] [] None 7, PostOrders [0x41, 0x6E] [] None 8, DeleteOrder 2,
      PostOrders [0x41, 0x6E] [] None 9] init_state)) = 4"
  using
    order_ids_sequential [where
      reqs = "[PostOrders [0x41, 0x6E] [] None 7, DeleteOrder 1, GetOrder 1,
        PostOrders [0x41] [] None 8, PostOrders [0x41, 0x6E] [] None 9]" and
      pre = "[PostOrders [0x41, 0x6E] [] None 7]" and k = 1 and
      stored = "\<lparr>id' = 1, Order.customer_name = [0x41, 0x6E], Order.items = [],
        Order.status = label_in_progress, created_at = 7\<rparr>" and
      raw_name = "[0x41, 0x6E]" and raw_items = "[]" and raw_requests = None and now = 9 and
      post = "[DeleteOrder 1]" and
      r = "\<lparr>OrderResponse.status = label_response_ready,
        order =
          \<lparr>id' = 2, Order.customer_name = [0x41, 0x6E], Order.items = [],
           Order.status = label_in_progress, created_at = 9\<rparr>,
        message = OrderCreated 2\<rparr>" and
      s' = "\<lparr>orders_storage = [2 \<mapsto> \<lparr>id' = 2, Order.customer_name = [0x41, 0x6E],
          Order.items = [], Order.status = label_in_progress, created_at = 9\<rparr>],
        next_order_id = 3\<rparr>" and
      s = "\<lparr>orders_storage = Map.empty, next_order_id = 2\<rparr>" and
      resp = "Create_response \<lparr>OrderResponse.status = label_response_ready,
        order =
          \<lparr>id' = 2, Order.customer_name = [0x41, 0x6E], Order.items = [],
           Order.status = label_in_progress, created_at = 9\<rparr>,
        message = OrderCreated 2\<rparr>" and
      req = Ping and order_id = 1]
    order_ids_sequential [where
      reqs = "[PostOrders [0xD800, 0xD800] [] None 7, PostOrders [0x41, 0x6E] [] None 8,
        DeleteOrder 2, PostOrders [0x41, 0x6E] [] None 9]" and
      pre = "[]" and k = 1 and
      stored = "\<lparr>id' = 1, Order.customer_name = [0x41, 0x6E], Order.items = [],
        Order.status = label_in_progress, created_at = 7\<rparr>" and
      raw_name = "[0x41]" and raw_items = "[]" and raw_requests = None and now = 9 and
      post = "[]" and
      r = "\<lparr>OrderResponse.status = label_response_ready,
        order =
          \<lparr>id' = 2, Order.customer_name = [0x41, 0x6E], Order.items = [],
           Order.status = label_in_progress, created_at = 9\<rparr>,
        message = OrderCreated 2\<rparr>" and
      s' = init_state and s = init_state and
      resp = "Create_response \<lparr>OrderResponse.status = label_response_ready,
        order =
          \<lparr>id' = 2, Order.customer_name = [0x41, 0x6E], Order.items = [],
           Order.status = label_in_progress, created_at = 9\<rparr>,
        message = OrderCreated 2\<rparr>" and
      req = Ping and order_id = 1]
  by (simp add: strip_def isspace_def init_state_def post_orders_def
      OrderCreate_validate_def validate_name_def create_order_unfold stdout_encodable_def
      cancel_order_def get_order_def labels_distinct [symmetric])

section \<open>The status of the stored orders\<close>

lemma step_in_progress:
  assumes "\<forall>order_id stored. orders_storage s order_id = Some stored \<longrightarrow>
             Order.status stored = label_in_progress"
  shows "(\<forall>order_id stored. orders_storage (snd (step req s)) order_id = Some stored \<longrightarrow>
            Order.status stored = label_in_progress) \<and>
         (\<forall>d. fst (step req s) \<noteq> Inl (HTTPException 422 d))"
proof (cases req)
  case Ping
  then show ?thesis using assms by (simp add: ping_def)
next
  case GetMenu
  then show ?thesis using assms by (simp add: get_menu_def)
next
  case (GetMenuItem item_name)
  then show ?thesis using assms by (simp add: get_menu_item_def split: option.splits)
next
  case (PostOrders raw_name raw_items raw_requests now)
  then show ?thesis using assms
    by (auto simp: post_orders_def OrderCreate_validate_def create_order_unfold
        split: sum.splits option.splits if_splits)
next
  case (GetOrder order_id)
  then show ?thesis using assms by (simp add: get_order_def split: option.splits)
next
  case (PutOrder order_id new_items)
  then show ?thesis using assms
    by (auto simp: update_order_def Let_def split: option.splits if_splits)
next
  case (DeleteOrder order_id)
  then show ?thesis using assms labels_distinct
    by (auto simp: cancel_order_def split: option.splits if_splits)
qed

lemma run_in_progress:
  "\<forall>order_id stored. orders_storage s order_id = Some stored \<longrightarrow>
      Order.status stored = label_in_progress \<Longrightarrow>
   (\<forall>order_id stored. orders_storage (snd (run reqs s)) order_id = Some stored \<longrightarrow>
      Order.status stored = label_in_progress) \<and>
   (\<forall>d. Inl (HTTPException 422 d) \<notin> set (fst (run reqs s)))"
proof (induction reqs arbitrary: s)
  case Nil
  then show ?case by simp
next
  case (Cons req reqs)
  have 1: "\<forall>order_id stored. orders_storage (snd (step req s)) order_id = Some stored \<longrightarrow>
            Order.status stored = label_in_progress"
    and 2: "\<forall>d. fst (step req s) \<noteq> Inl (HTTPException 422 d)"
    using step_in_progress [OF Cons.prems] by blast+
  have 3: "Inl (HTTPException 422 d) \<noteq> fst (step req s)" for d
  proof
    assume "Inl (HTTPException 422 d) = fst (step req s)"
    then have "fst (step req s) = Inl (HTTPException 422 d)"
      by (rule sym)
    with 2 show False
      by blast
  qed
  from Cons.IH [OF 1] 3 show ?case
    by auto
qed

text \<open>
  C10. In every session from the initial state, every stored order has the status
  stamped at creation, the in-progress label; this label is not the one \<open>cancel_order\<close>
  tests for, and no answer of the session is an \<open>HTTPException\<close> with status 422: the
  invalid-state branches of \<open>update_order\<close> and \<open>cancel_order\<close> are never taken.
\<close>

theorem stored_orders_in_progress:
  "(\<forall>order_id stored. orders_storage (snd (run reqs init_state)) order_id = Some stored \<longrightarrow>
      Order.status stored = label_in_progress) \<and>
   (\<forall>d. Inl (HTTPException 422 d) \<notin> set (fst (run reqs init_state))) \<and>
   label_in_progress \<noteq> label_ready"
proof -
  have "\<forall>order_id stored. orders_storage init_state order_id = Some stored \<longrightarrow>
      Order.status stored = label_in_progress"
    by (simp add: init_state_def)
  from run_in_progress [OF this] labels_distinct show ?thesis
    by auto
qed

theorem stored_orders_in_progress_witness:
  "orders_storage (snd (run
     [PostOrders [0x41, 0x6E] [ShawarmaType_value HAVOV] None 7, PutOrder 1 [ascii ''pizza''],
      PostOrders [0x41, 0x6E] [] None 8, DeleteOrder 2] init_state)) 1 =
     Some \<lparr>id' = 1, Order.customer_name = [0x41, 0x6E], Order.items = [Str (ascii ''pizza'')],
         Order.status = label_in_progress, created_at = 7\<rparr> \<and>
   Order.status \<lparr>id' = 1, Order.customer_name = [0x41, 0x6E],
     Order.items = [Str (ascii ''pizza'')], Order.status = label_in_progress, created_at = 7\<rparr> =
     label_in_progress \<and>
   Inl (HTTPException 422 ReadyOrderNoUpdate) \<notin> set (fst (run
     [PostOrders [0x41, 0x6E] [ShawarmaType_value HAVOV] None 7, PutOrder 1 [ascii ''pizza''],
      PostOrders [0x41, 0x6E] [] None 8, DeleteOrder 2] init_state)) \<and>
   Inl (HTTPException 422 ReadyOrderNoCancel) \<notin> set (fst (run
     [PostOrders [0x41, 0x6E] [ShawarmaType_value HAVOV] None 7, PutOrder 1 [ascii ''pizza''],
      PostOrders [0x41, 0x6E] [] None 8, DeleteOrder 2] init_state))"
proof -
  have s: "orders_storage (snd (run
     [PostOrders [0x41, 0x6E] [ShawarmaType_value HAVOV] None 7, PutOrder 1 [ascii ''pizza''],
      PostOrders [0x41, 0x6E] [] None 8, DeleteOrder 2] init_state)) 1 =
     Some \<lparr>id' = 1, Order.customer_name = [0x41, 0x6E], Order.items = [Str (ascii ''pizza'')],
         Order.status = label_in_progress, created_at = 7\<rparr>"
    by (simp add: strip_def isspace_def init_state_def post_orders_def
      OrderCreate_validate_def validate_name_def ShawarmaType_of_value_def
      ShawarmaType_members_def create_order_unfold stdout_encodable_def Let_def update_order_def cancel_order_def
      labels_distinct [symmetric])
  from stored_orders_in_progress [of
     "[PostOrders [0x41, 0x6E] [ShawarmaType_value HAVOV] None 7, PutOrder 1 [ascii ''pizza''],
      PostOrders [0x41, 0x6E] [] None 8, DeleteOrder 2]"] s
  show ?thesis
    by blast
qed

end
